theory Spec2Isabelle
  imports Complex_Main "HOL-Library.AList" "HOL-Library.Sublist"
begin

text \<open>
  The repository is a set of notebooks around a managed knowledge base and managed
  model endpoints. Its own logic is small: the parsing of an endpoint response, a
  metadata filter, the configuration of a retrieve-and-generate request with optional
  guardrails, a prompt template, a sweep over models, and a loop that merges cost and
  latency figures into an evaluation. Each is embedded below as the source has it, with
  every external call (the Bedrock and SageMaker clients, the FloTorch helpers) a
  parameter whose outcome is an exception or a value. The definitions come first, the
  properties after them.
\<close>

section \<open>Python values and exceptions\<close>

text \<open>
  The notebooks pass JSON-like Python values around: the parsed body of an endpoint
  response, the metadata filter, the request configuration. \<open>pyval\<close> is that value
  space. A dictionary is the list of its items in insertion order (Python dictionaries
  keep it); a dictionary that the interpreter or \<open>json.loads\<close> has built has distinct
  keys, and \<open>map_of\<close> reads it.
\<close>

datatype pyval =
    PNone
  | PBool bool
  | PInt int
  | PFloat real
  | PStr string
  | PList "pyval list"
  | PDict "(string \<times> pyval) list"

text \<open>
  An exception is its class and the text \<open>str(e)\<close> gives. \<open>ServiceError\<close> stands for
  whatever the boto3 client raises (a client error, a connection error, a time-out).
  The texts of the errors the interpreter itself raises are those of CPython 3.11, the
  kernel the notebooks name; no theorem below depends on them.
\<close>

datatype exc_class =
  IndexError | KeyError | TypeError | ValueError | NameError | RuntimeError | ServiceError

datatype py_error = Raised exc_class string

fun py_str :: "py_error \<Rightarrow> string" where
  "py_str (Raised c m) = m"

fun exc_class_of :: "py_error \<Rightarrow> exc_class" where
  "exc_class_of (Raised c m) = c"

definition bindE :: "py_error + 'a \<Rightarrow> ('a \<Rightarrow> py_error + 'b) \<Rightarrow> py_error + 'b" where
  "bindE m f = (case m of Inl e \<Rightarrow> Inl e | Inr x \<Rightarrow> f x)"

text \<open>The name of a value's type, as the interpreter prints it in a TypeError.\<close>

fun type_name :: "pyval \<Rightarrow> string" where
  "type_name PNone = ''NoneType''"
| "type_name (PBool b) = ''bool''"
| "type_name (PInt n) = ''int''"
| "type_name (PFloat r) = ''float''"
| "type_name (PStr s) = ''str''"
| "type_name (PList xs) = ''list''"
| "type_name (PDict d) = ''dict''"

text \<open>Truthiness, as \<open>if x:\<close> and \<open>not x\<close> test it.\<close>

fun truthy :: "pyval \<Rightarrow> bool" where
  "truthy PNone = False"
| "truthy (PBool b) = b"
| "truthy (PInt n) = (n \<noteq> 0)"
| "truthy (PFloat r) = (r \<noteq> 0)"
| "truthy (PStr s) = (s \<noteq> [])"
| "truthy (PList xs) = (xs \<noteq> [])"
| "truthy (PDict d) = (d \<noteq> [])"

text \<open>\<open>x[k]\<close> for a string key \<open>k\<close>.\<close>

abbreviation quoted :: "string \<Rightarrow> string" where
  "quoted s \<equiv> CHR 0x27 # s @ [CHR 0x27]"

fun getitem_str :: "pyval \<Rightarrow> string \<Rightarrow> py_error + pyval" where
  "getitem_str (PDict d) k =
     (case map_of d k of
        None \<Rightarrow> Inl (Raised KeyError (quoted k))
      | Some v \<Rightarrow> Inr v)"
| "getitem_str (PStr s) k =
     Inl (Raised TypeError (''string indices must be integers, not '' @ quoted ''str''))"
| "getitem_str (PList xs) k =
     Inl (Raised TypeError ''list indices must be integers or slices, not str'')"
| "getitem_str v k =
     Inl (Raised TypeError (quoted (type_name v) @ '' object is not subscriptable''))"

text \<open>\<open>xs[0]\<close> on a list.\<close>

fun getitem0 :: "pyval list \<Rightarrow> py_error + pyval" where
  "getitem0 [] = Inl (Raised IndexError ''list index out of range'')"
| "getitem0 (x # xs) = Inr x"

text \<open>
  \<open>k in x\<close> for a string \<open>k\<close>: a key test on a dictionary, a substring test on a
  string, an element test on a list, a TypeError on anything else.
\<close>

definition is_substring :: "string \<Rightarrow> string \<Rightarrow> bool" where
  "is_substring k s = (\<exists>ys \<in> set (suffixes s). prefix k ys)"

fun contains_str :: "string \<Rightarrow> pyval \<Rightarrow> py_error + bool" where
  "contains_str k (PDict d) = Inr (k \<in> fst ` set d)"
| "contains_str k (PStr s) = Inr (is_substring k s)"
| "contains_str k (PList xs) = Inr (PStr k \<in> set xs)"
| "contains_str k v =
     Inl (Raised TypeError (''argument of type '' @ quoted (type_name v) @ '' is not iterable''))"

section \<open>The SageMaker helper: parsing the endpoint's response\<close>

text \<open>
  \<open>generate_response\<close> calls the endpoint, decodes the body and picks the generated text
  out of it; every exception inside the \<open>try\<close> comes out as a RuntimeError. The call,
  the read and \<open>json.loads\<close> are external: their outcome (an exception, or the parsed
  value \<open>result\<close>) is the model's input. \<open>resolve_result\<close> is the chain of tests on
  \<open>result\<close>, in the source's order.
\<close>

definition resolve_result :: "pyval \<Rightarrow> py_error + pyval" where
  "resolve_result result =
     (case result of
        PList xs \<Rightarrow> bindE (getitem0 xs) (\<lambda>x. getitem_str x ''generated_text'')
      | _ \<Rightarrow>
          bindE (contains_str ''generated_text'' result) (\<lambda>b1.
            if b1 then getitem_str result ''generated_text''
            else bindE (contains_str ''generation'' result) (\<lambda>b2.
              if b2 then getitem_str result ''generation''
              else Inl (Raised RuntimeError ''Unexpected response format''))))"

definition generate_response :: "py_error + pyval \<Rightarrow> py_error + pyval" where
  "generate_response outcome =
     (case bindE outcome resolve_result of
        Inl e \<Rightarrow> Inl (Raised RuntimeError (''Generation failed: '' @ py_str e))
      | Inr text \<Rightarrow> Inr text)"

text \<open>
  The shapes the resolver knows: a list whose first element is a dictionary with the
  key \<open>generated_text\<close>, or a dictionary with the key \<open>generated_text\<close> or the key
  \<open>generation\<close>.
\<close>

definition known_shape :: "pyval \<Rightarrow> bool" where
  "known_shape r =
     (case r of
        PList (PDict d # rest) \<Rightarrow> ''generated_text'' \<in> fst ` set d
      | PDict d \<Rightarrow> ''generated_text'' \<in> fst ` set d \<or> ''generation'' \<in> fst ` set d
      | _ \<Rightarrow> False)"


section \<open>The metadata filter\<close>

text \<open>
  Both notebooks that filter (the SageMaker one and the guardrail one) write the filter
  as the same literal: two \<open>equals\<close> clauses under one \<open>andAll\<close>.
\<close>

definition one_group_filter :: pyval where
  "one_group_filter =
     PDict [(''andAll'', PList [
       PDict [(''equals'', PDict [(''key'', PStr ''docType''), (''value'', PStr ''10K Report'')])],
       PDict [(''equals'', PDict [(''key'', PStr ''year''), (''value'', PInt 2023)])]])]"

text \<open>
  Modelled from the spec: the equality clause of one (key, value) constraint. The
  repository has no function that builds a filter, only the literal above; the clause
  has the shape of the literal's clauses.
\<close>

definition equals_clause :: "string \<times> pyval \<Rightarrow> pyval" where
  "equals_clause p = PDict [(''equals'', PDict [(''key'', PStr (fst p)), (''value'', snd p)])]"

text \<open>
  Modelled from the spec: the filter builder, which the repository does not have. The
  specification's contract ("given a set of (key, value) equality constraints, produce
  a boolean AND-expression object") is one \<open>equals\<close> clause per pair, in the pairs'
  order, under a single \<open>andAll\<close>.
\<close>

definition and_all_filter :: "(string \<times> pyval) list \<Rightarrow> pyval" where
  "and_all_filter ps = PDict [(''andAll'', PList (map equals_clause ps))]"

text \<open>
  Reading a filter back: \<open>clause_pair\<close> accepts exactly a dictionary whose only item is
  an \<open>equals\<close> of a \<open>key\<close> and a \<open>value\<close>; \<open>and_all_clauses\<close> accepts exactly a
  dictionary whose only item is an \<open>andAll\<close> over a list of such clauses, and gives
  their pairs in order. Anything nested deeper, or any other operator, gives \<open>None\<close>.
\<close>

definition clause_pair :: "pyval \<Rightarrow> (string \<times> pyval) option" where
  "clause_pair c =
     (case c of
        PDict [(op, PDict [(k1, PStr k), (k2, v)])] \<Rightarrow>
          if op = ''equals'' \<and> k1 = ''key'' \<and> k2 = ''value'' then Some (k, v) else None
      | _ \<Rightarrow> None)"

definition and_all_clauses :: "pyval \<Rightarrow> (string \<times> pyval) list option" where
  "and_all_clauses f =
     (case f of
        PDict [(op, PList cs)] \<Rightarrow>
          if op = ''andAll'' then those (map clause_pair cs) else None
      | _ \<Rightarrow> None)"

section \<open>Writing into nested dictionaries\<close>

text \<open>\<open>d[k] = v\<close>: the item is replaced where it stands, or added at the end.\<close>

fun setitem :: "pyval \<Rightarrow> string \<Rightarrow> pyval \<Rightarrow> py_error + pyval" where
  "setitem (PDict d) k v = Inr (PDict (AList.update k v d))"
| "setitem x k v =
     Inl (Raised TypeError (quoted (type_name x) @ '' object does not support item assignment''))"

text \<open>
  \<open>x[p1]...[pn][k] = v\<close>. Python changes the innermost dictionary in place and the outer
  ones see it, since they hold it by reference; the model rebuilds the outer ones.
\<close>

fun setitem_path :: "pyval \<Rightarrow> string list \<Rightarrow> string \<Rightarrow> pyval \<Rightarrow> py_error + pyval" where
  "setitem_path x [] k v = setitem x k v"
| "setitem_path x (p # ps) k v =
     bindE (getitem_str x p) (\<lambda>y. bindE (setitem_path y ps k v) (\<lambda>y'. setitem x p y'))"

text \<open>\<open>x[p1]...[pn]\<close>.\<close>

fun getitem_path :: "pyval \<Rightarrow> string list \<Rightarrow> py_error + pyval" where
  "getitem_path x [] = Inr x"
| "getitem_path x (p # ps) = bindE (getitem_str x p) (\<lambda>y. getitem_path y ps)"

section \<open>Retrieve-and-generate with optional guardrails\<close>

text \<open>
  \<open>retrieve_and_generate_with_conditional_guardrails\<close> of the guardrail notebook. The
  optional arguments are Python values with \<open>PNone\<close> for \<open>None\<close>, tested by truthiness as
  the source does (\<open>if metadata_filter:\<close>, \<open>if not guardrail_id:\<close>,
  \<open>if guardrail_version:\<close>). \<open>build_kb_config\<close> is the body up to the API call: it
  gives the configuration, or the exception raised before any request.
\<close>

definition prompt_template_text :: string where
  "prompt_template_text =
     ''Answer the following question based on the context:'' @ [CHR 0x0A] @
     ''$search_results$'' @ [CHR 0x0A, CHR 0x0A] @ ''Question: {question}''"

definition build_kb_config ::
  "string \<Rightarrow> string \<Rightarrow> pyval \<Rightarrow> bool \<Rightarrow> pyval \<Rightarrow> pyval \<Rightarrow> py_error + pyval" where
  "build_kb_config knowledge_base_id model_arn metadata_filter use_guardrails
       guardrail_id guardrail_version =
     (let kb_config =
        PDict [(''knowledgeBaseId'', PStr knowledge_base_id),
               (''modelArn'', PStr model_arn),
               (''retrievalConfiguration'',
                  PDict [(''vectorSearchConfiguration'',
                    PDict [(''numberOfResults'', PInt 5)])])]
      in
      bindE (if truthy metadata_filter
             then setitem_path kb_config
                    [''retrievalConfiguration'', ''vectorSearchConfiguration'']
                    ''filter'' metadata_filter
             else Inr kb_config) (\<lambda>kb_config.
      bindE (setitem kb_config ''generationConfiguration''
               (PDict [(''promptTemplate'',
                  PDict [(''textPromptTemplate'', PStr prompt_template_text)])])) (\<lambda>kb_config.
      if use_guardrails then
        if \<not> truthy guardrail_id then
          Inl (Raised ValueError ''guardrail_id is required when use_guardrails is True'')
        else
          let guardrail_config = PDict [(''guardrailId'', guardrail_id)] in
          bindE (if truthy guardrail_version
                 then setitem guardrail_config ''guardrailVersion'' guardrail_version
                 else Inr guardrail_config) (\<lambda>guardrail_config.
          setitem_path kb_config [''generationConfiguration'']
            ''guardrailConfiguration'' guardrail_config)
      else Inr kb_config)))"

text \<open>
  The keyword arguments of the \<open>retrieve_and_generate\<close> call, as a dictionary.
\<close>

definition rag_request :: "string \<Rightarrow> pyval \<Rightarrow> pyval" where
  "rag_request query kb_config =
     PDict [(''input'', PDict [(''text'', PStr query)]),
            (''retrieveAndGenerateConfiguration'',
               PDict [(''type'', PStr ''KNOWLEDGE_BASE''),
                      (''knowledgeBaseConfiguration'', kb_config)])]"

text \<open>
  The service is a parameter: a request gives an exception or a response. The function
  returns what the Python call returns or raises, and the requests it has issued.
\<close>

definition retrieve_and_generate_with_conditional_guardrails ::
  "(pyval \<Rightarrow> py_error + 'r) \<Rightarrow> string \<Rightarrow> string \<Rightarrow> string \<Rightarrow> pyval \<Rightarrow> bool \<Rightarrow> pyval \<Rightarrow> pyval
     \<Rightarrow> (py_error + 'r) \<times> pyval list" where
  "retrieve_and_generate_with_conditional_guardrails service query knowledge_base_id model_arn
       metadata_filter use_guardrails guardrail_id guardrail_version =
     (case build_kb_config knowledge_base_id model_arn metadata_filter use_guardrails
             guardrail_id guardrail_version of
        Inl e \<Rightarrow> (Inl e, [])
      | Inr kb_config \<Rightarrow>
          (service (rag_request query kb_config), [rag_request query kb_config]))"

text \<open>
  The configuration in closed form, for the proofs: \<open>build_kb_config_eq\<close> below shows
  that the source's sequence of assignments builds exactly this value.
\<close>

definition kb_config_value ::
  "string \<Rightarrow> string \<Rightarrow> pyval \<Rightarrow> bool \<Rightarrow> pyval \<Rightarrow> pyval \<Rightarrow> pyval" where
  "kb_config_value kb arn mf ug gid gv =
     PDict [(''knowledgeBaseId'', PStr kb),
            (''modelArn'', PStr arn),
            (''retrievalConfiguration'',
               PDict [(''vectorSearchConfiguration'',
                 PDict ((''numberOfResults'', PInt 5) #
                        (if truthy mf then [(''filter'', mf)] else [])))]),
            (''generationConfiguration'',
               PDict ((''promptTemplate'',
                         PDict [(''textPromptTemplate'', PStr prompt_template_text)]) #
                      (if ug then
                         [(''guardrailConfiguration'',
                             PDict ((''guardrailId'', gid) #
                                    (if truthy gv then [(''guardrailVersion'', gv)] else [])))]
                       else [])))]"

text \<open>Where the filter goes in the configuration.\<close>

definition filter_path :: "string list" where
  "filter_path = [''retrievalConfiguration'', ''vectorSearchConfiguration'', ''filter'']"

section \<open>Retrieval for the SageMaker helper\<close>

text \<open>
  Iterating a value, as a \<open>for\<close> clause does: the elements of a list, the keys of a
  dictionary, the characters of a string (its bytes here; each is a string again, which
  is all the caller can see of it before the next subscript raises).
\<close>

fun py_iter :: "pyval \<Rightarrow> py_error + pyval list" where
  "py_iter (PList xs) = Inr xs"
| "py_iter (PDict d) = Inr (map (\<lambda>kv. PStr (fst kv)) d)"
| "py_iter (PStr s) = Inr (map (\<lambda>c. PStr [c]) s)"
| "py_iter v = Inl (Raised TypeError (quoted (type_name v) @ '' object is not iterable''))"

text \<open>A list comprehension: the first element that raises ends it.\<close>

fun mapE :: "('a \<Rightarrow> py_error + 'b) \<Rightarrow> 'a list \<Rightarrow> py_error + 'b list" where
  "mapE f [] = Inr []"
| "mapE f (x # xs) = bindE (f x) (\<lambda>y. bindE (mapE f xs) (\<lambda>ys. Inr (y # ys)))"

definition NUM_RESULTS :: int where
  "NUM_RESULTS = 3"

definition retrieve_request :: "string \<Rightarrow> string \<Rightarrow> pyval" where
  "retrieve_request knowledge_base_id query =
     PDict [(''knowledgeBaseId'', PStr knowledge_base_id),
            (''retrievalQuery'', PDict [(''text'', PStr query)]),
            (''retrievalConfiguration'',
               PDict [(''vectorSearchConfiguration'',
                 PDict [(''numberOfResults'', PInt NUM_RESULTS),
                        (''filter'', one_group_filter)])])]"

text \<open>
  \<open>retrieve_from_bedrock\<close>: one \<open>retrieve\<close> call, then the text of every result; any
  exception inside the \<open>try\<close> comes out as a RuntimeError with the original text.
  \<open>KNOWLEDGE_BASE_ID\<close> is a global read from the configuration file, here a parameter.
\<close>

definition result_texts :: "pyval \<Rightarrow> py_error + pyval list" where
  "result_texts response =
     bindE (getitem_str response ''retrievalResults'') (\<lambda>rs.
     bindE (py_iter rs) (\<lambda>results.
     mapE (\<lambda>result. bindE (getitem_str result ''content'') (\<lambda>c. getitem_str c ''text''))
       results))"

definition retrieve_from_bedrock ::
  "(pyval \<Rightarrow> py_error + pyval) \<Rightarrow> string \<Rightarrow> string \<Rightarrow> (py_error + pyval list) \<times> pyval list" where
  "retrieve_from_bedrock service KNOWLEDGE_BASE_ID query =
     ((case bindE (service (retrieve_request KNOWLEDGE_BASE_ID query)) result_texts of
         Inl e \<Rightarrow> Inl (Raised RuntimeError (''Bedrock retrieval failed: '' @ py_str e))
       | Inr texts \<Rightarrow> Inr texts),
      [retrieve_request KNOWLEDGE_BASE_ID query])"

text \<open>
  The text of one retrieval result, read directly: the \<open>text\<close> of the dictionary under
  \<open>content\<close> of a dictionary, \<open>None\<close> when either is missing or is no dictionary. The
  properties of \<open>retrieve_from_bedrock\<close> are stated with it.
\<close>

definition result_text :: "pyval \<Rightarrow> pyval option" where
  "result_text r =
     (case r of
        PDict rd \<Rightarrow>
          (case map_of rd ''content'' of
             Some (PDict cd) \<Rightarrow> map_of cd ''text''
           | _ \<Rightarrow> None)
      | _ \<Rightarrow> None)"

section \<open>The prompt of the SageMaker helper\<close>

text \<open>
  Strings are byte strings (UTF-8). \<open>" ".join(context)\<close> puts one space between the
  elements of the list.
\<close>

fun join_space :: "string list \<Rightarrow> string" where
  "join_space [] = []"
| "join_space [x] = x"
| "join_space (x # y # ys) = x @ '' '' @ join_space (y # ys)"

text \<open>
  \<open>str.strip()\<close> removes white space at both ends. Among single bytes, Python's white
  space is tab, line feed, vertical tab, form feed, carriage return, the separators
  0x1C to 0x1F and the space; every other white space character of Unicode is several
  bytes in UTF-8. \<open>format_prompt\<close> strips a text whose first and last visible characters
  are the template's own \<open><\<close> and \<open>>\<close>, so only the template's indentation is removed.
\<close>

definition is_space :: "char \<Rightarrow> bool" where
  "is_space c = (c \<in> {CHR 0x09, CHR 0x0A, CHR 0x0B, CHR 0x0C, CHR 0x0D,
                        CHR 0x1C, CHR 0x1D, CHR 0x1E, CHR 0x1F, CHR 0x20})"

definition strip :: "string \<Rightarrow> string" where
  "strip s = rev (dropWhile is_space (rev (dropWhile is_space s)))"

text \<open>A line break and the eight spaces of the template's indentation.\<close>

definition nl8 :: string where
  "nl8 = CHR 0x0A # ''        ''"

text \<open>
  \<open>format_prompt\<close>: the system prompt holds the joined context, followed by the stray
  double quote of the source, a line break and four spaces; the whole prompt is the
  Llama 3 frame around the system prompt and the question, stripped.
\<close>

definition system_prompt :: "string list \<Rightarrow> string" where
  "system_prompt context' =
     ''Use the following context to answer the question. If you don'' @ [CHR 0x27] @
     ''t know the answer, say '' @ [CHR 0x27] @ ''I don'' @ [CHR 0x27] @ ''t know'' @
     [CHR 0x27] @ ''.'' @ nl8 @ ''Context:'' @ nl8 @
     join_space context' @ [CHR 0x22] @ [CHR 0x0A] @ ''    ''"

definition format_prompt :: "string \<Rightarrow> string list \<Rightarrow> string" where
  "format_prompt query context' =
     strip (nl8 @ ''<|begin_of_text|>'' @ nl8 @
            ''<|start_header_id|>system<|end_header_id|>'' @ nl8 @
            system_prompt context' @ nl8 @
            ''<|start_header_id|>user<|end_header_id|>'' @ nl8 @
            ''Question: '' @ query @ nl8 @
            ''<|start_header_id|>assistant<|end_header_id|>'' @ nl8)"

text \<open>
  The three fixed parts of a formatted prompt: before the joined context, between it and
  the question, and after the question.
\<close>

definition prompt_head :: string where
  "prompt_head =
     ''<|begin_of_text|>'' @ nl8 @ ''<|start_header_id|>system<|end_header_id|>'' @ nl8 @
     ''Use the following context to answer the question. If you don'' @ [CHR 0x27] @
     ''t know the answer, say '' @ [CHR 0x27] @ ''I don'' @ [CHR 0x27] @ ''t know'' @
     [CHR 0x27] @ ''.'' @ nl8 @ ''Context:'' @ nl8"

definition prompt_middle :: string where
  "prompt_middle =
     [CHR 0x22] @ [CHR 0x0A] @ ''    '' @ nl8 @
     ''<|start_header_id|>user<|end_header_id|>'' @ nl8 @ ''Question: ''"

definition prompt_tail :: string where
  "prompt_tail = nl8 @ ''<|start_header_id|>assistant<|end_header_id|>''"

section \<open>The multi-model sweep\<close>

text \<open>
  The sweep of the evaluation notebook: for each model, create an inferencer, run the
  RAG helper on the question set, and store the responses under the model's name. Both
  library calls are parameters (\<open>create\<close> for \<open>create_inferencer_provider\<close> with its
  fixed other arguments, \<open>rag\<close> for \<open>rag_with_flotorch\<close> with its fixed configuration,
  storage and reranker); either may raise. The loop has no \<open>try\<close>, so an exception ends
  it; \<open>rag_response_dict\<close> is a global and keeps what was stored before. The state also
  logs each call of the helper. A dictionary keeps insertion order, and assigning to a
  key it has replaces the value in place: \<open>AList.update\<close>.
\<close>

record ('q, 'r) sweep_state =
  rag_response_dict :: "(string \<times> 'r) list"
  helper_calls :: "(string \<times> 'q) list"

fun sweep_loop ::
  "(string \<Rightarrow> py_error + 'i) \<Rightarrow> ('i \<Rightarrow> 'q \<Rightarrow> py_error + 'r) \<Rightarrow> 'q \<Rightarrow> string list
     \<Rightarrow> ('q, 'r) sweep_state \<Rightarrow> ('q, 'r) sweep_state \<times> py_error option" where
  "sweep_loop create rag questions [] s = (s, None)"
| "sweep_loop create rag questions (inference_model # rest) s =
     (case create inference_model of
        Inl e \<Rightarrow> (s, Some e)
      | Inr inferencer \<Rightarrow>
          (case rag inferencer questions of
             Inl e \<Rightarrow>
               (s\<lparr>helper_calls := helper_calls s @ [(inference_model, questions)]\<rparr>, Some e)
           | Inr responses \<Rightarrow>
               sweep_loop create rag questions rest
                 (s\<lparr>rag_response_dict :=
                      AList.update inference_model responses (rag_response_dict s),
                    helper_calls := helper_calls s @ [(inference_model, questions)]\<rparr>)))"

definition sweep ::
  "(string \<Rightarrow> py_error + 'i) \<Rightarrow> ('i \<Rightarrow> 'q \<Rightarrow> py_error + 'r) \<Rightarrow> 'q \<Rightarrow> string list
     \<Rightarrow> ('q, 'r) sweep_state \<times> py_error option" where
  "sweep create rag questions inference_models =
     sweep_loop create rag questions inference_models
       \<lparr>rag_response_dict = [], helper_calls = []\<rparr>"

text \<open>What one pass gives for a model: the helper's responses, or the exception.\<close>

definition model_pass ::
  "(string \<Rightarrow> py_error + 'i) \<Rightarrow> ('i \<Rightarrow> 'q \<Rightarrow> py_error + 'r) \<Rightarrow> 'q \<Rightarrow> string
     \<Rightarrow> py_error + 'r" where
  "model_pass create rag questions m = bindE (create m) (\<lambda>inferencer. rag inferencer questions)"

text \<open>The elements of a list in the order of their first occurrence.\<close>

fun first_occurrences :: "'a list \<Rightarrow> 'a list" where
  "first_occurrences [] = []"
| "first_occurrences (x # xs) = x # filter (\<lambda>y. y \<noteq> x) (first_occurrences xs)"

section \<open>The cost and latency merge\<close>

text \<open>
  \<open>{**a, **b}\<close> and \<open>a.update(b)\<close>: the items of \<open>b\<close> are written into \<open>a\<close> one after the
  other, each replacing the value of a key \<open>a\<close> has or going to the end.
\<close>

definition dict_union :: "(string \<times> 'v) list \<Rightarrow> (string \<times> 'v) list \<Rightarrow> (string \<times> 'v) list" where
  "dict_union a b = fold (\<lambda>kv. AList.update (fst kv) (snd kv)) b a"

text \<open>
  The merge loop of the evaluation notebook. It runs over the keys of
  \<open>loaded_responses\<close> as \<open>kb_type\<close>, and reads and writes \<open>final_evaluation[model]\<close>:
  \<open>model\<close> is not the loop variable but a global name, which the notebook itself never
  assigns. It is a parameter here, \<open>None\<close> when the name is unbound (the lookup then
  raises NameError). \<open>calculate_cost_and_latency_metrics\<close> is a library call with a fixed
  model and region, a parameter too; it is evaluated before \<open>model\<close> is looked up. The
  result is \<open>final_evaluation\<close> as the loop leaves it, and the exception if one ended it.
\<close>

fun merge_loop ::
  "('d \<Rightarrow> py_error + (string \<times> 'v) list) \<Rightarrow> string option \<Rightarrow> (string \<times> 'd) list
     \<Rightarrow> (string \<times> (string \<times> 'v) list) list
     \<Rightarrow> (string \<times> (string \<times> 'v) list) list \<times> py_error option" where
  "merge_loop calculate model [] final_evaluation = (final_evaluation, None)"
| "merge_loop calculate model ((kb_type, inference_data) # rest) final_evaluation =
     (case calculate inference_data of
        Inl e \<Rightarrow> (final_evaluation, Some e)
      | Inr cost_and_latency_metrics \<Rightarrow>
          (case model of
             None \<Rightarrow>
               (final_evaluation,
                Some (Raised NameError (''name '' @ quoted ''model'' @ '' is not defined'')))
           | Some model_key \<Rightarrow>
               (case map_of final_evaluation model_key of
                  None \<Rightarrow> (final_evaluation, Some (Raised KeyError (quoted model_key)))
                | Some custom_eval_metrics \<Rightarrow>
                    if kb_type \<notin> fst ` set final_evaluation then
                      merge_loop calculate model rest
                        (AList.update model_key
                           (dict_union custom_eval_metrics cost_and_latency_metrics)
                           final_evaluation)
                    else
                      let merged = dict_union custom_eval_metrics cost_and_latency_metrics
                      in merge_loop calculate model rest
                           (AList.update model_key
                              (dict_union custom_eval_metrics merged)
                              final_evaluation))))"

section \<open>Properties of the response resolver\<close>

lemma bindE_simps [simp]:
  "bindE (Inl e) f = Inl e"
  "bindE (Inr x) f = f x"
  by (simp_all add: bindE_def)

lemma map_of_Some_key: "map_of d k = Some v \<Longrightarrow> k \<in> fst ` set d"
  by (force dest: map_of_SomeD)

lemma contains_dict_Some:
  "map_of d k = Some v \<Longrightarrow> contains_str k (PDict d) = Inr True"
  by (simp add: map_of_Some_key)

lemma contains_dict_None:
  "map_of d k = None \<Longrightarrow> contains_str k (PDict d) = Inr False"
  by (simp add: map_of_eq_None_iff)

lemma generate_response_list:
  "map_of d ''generated_text'' = Some v \<Longrightarrow>
   generate_response (Inr (PList (PDict d # rest))) = Inr v"
  by (simp add: generate_response_def resolve_result_def)

lemma generate_response_generated_text:
  "map_of d ''generated_text'' = Some v \<Longrightarrow> generate_response (Inr (PDict d)) = Inr v"
  by (simp add: generate_response_def resolve_result_def contains_dict_Some
      del: contains_str.simps)

lemma generate_response_generation:
  "map_of d ''generated_text'' = None \<Longrightarrow> map_of d ''generation'' = Some v \<Longrightarrow>
   generate_response (Inr (PDict d)) = Inr v"
  by (simp add: generate_response_def resolve_result_def contains_dict_Some contains_dict_None
      del: contains_str.simps)

lemma getitem_str_Inr:
  "getitem_str x k = Inr v \<Longrightarrow> \<exists>d. x = PDict d \<and> map_of d k = Some v"
  by (cases x) (auto split: option.splits)

text \<open>Only a value of a known shape gets through the chain of tests.\<close>

lemma resolve_result_Inr_known:
  assumes a: "resolve_result r = Inr v"
  shows "known_shape r"
proof (cases r)
  case (PList xs)
  show ?thesis
  proof (cases xs)
    case Nil
    with a PList show ?thesis by (simp add: resolve_result_def)
  next
    case (Cons x rest)
    with a PList have "getitem_str x ''generated_text'' = Inr v"
      by (simp add: resolve_result_def)
    then obtain d where "x = PDict d" "map_of d ''generated_text'' = Some v"
      using getitem_str_Inr by blast
    with PList Cons show ?thesis
      by (simp add: known_shape_def map_of_Some_key)
  qed
next
  case (PDict d)
  show ?thesis
  proof (rule ccontr)
    assume "\<not> known_shape r"
    with PDict have "''generated_text'' \<notin> fst ` set d" "''generation'' \<notin> fst ` set d"
      by (simp_all add: known_shape_def)
    with a PDict show False by (simp add: resolve_result_def)
  qed
qed (use a in \<open>auto simp: resolve_result_def split: if_splits dest: getitem_str_Inr\<close>)

lemma generate_response_unknown:
  assumes "\<not> known_shape r"
  shows "\<exists>m. generate_response (Inr r) = Inl (Raised RuntimeError (''Generation failed: '' @ m))"
proof (cases "resolve_result r")
  case (Inl e)
  then show ?thesis by (simp add: generate_response_def)
next
  case (Inr v)
  with assms show ?thesis by (simp add: resolve_result_Inr_known)
qed

text \<open>
  Claim C2, as the code has it. The resolver returns the \<open>generated_text\<close> of the first
  element of a list, the \<open>generated_text\<close> of a dictionary, and the \<open>generation\<close> of a
  dictionary that has no \<open>generated_text\<close> key (the tests run in this order, so a
  dictionary with both keys yields its \<open>generated_text\<close>); every value of another shape
  raises a RuntimeError whose text starts with \<open>Generation failed: \<close>.
\<close>

theorem generate_response_shapes:
  "(map_of d ''generated_text'' = Some v \<longrightarrow>
      generate_response (Inr (PList (PDict d # rest))) = Inr v) \<and>
   (map_of d ''generated_text'' = Some v \<longrightarrow>
      generate_response (Inr (PDict d)) = Inr v) \<and>
   (map_of d ''generated_text'' = None \<and> map_of d ''generation'' = Some v \<longrightarrow>
      generate_response (Inr (PDict d)) = Inr v) \<and>
   (\<not> known_shape r \<longrightarrow>
      (\<exists>m. generate_response (Inr r) =
            Inl (Raised RuntimeError (''Generation failed: '' @ m))))"
  using generate_response_list generate_response_generated_text
    generate_response_generation generate_response_unknown
  by blast

text \<open>
  The three inputs the specification names: \<open>{"generation": "X"}\<close> gives \<open>"X"\<close>,
  \<open>[{"generated_text": "Y"}]\<close> gives \<open>"Y"\<close>, and \<open>{}\<close> raises.
\<close>

theorem generate_response_shapes_witness:
  "generate_response (Inr (PDict [(''generation'', PStr ''X'')])) = Inr (PStr ''X'') \<and>
   generate_response (Inr (PList [PDict [(''generated_text'', PStr ''Y'')]])) = Inr (PStr ''Y'') \<and>
   generate_response (Inr (PDict [(''generated_text'', PStr ''Z'')])) = Inr (PStr ''Z'') \<and>
   (\<exists>m. generate_response (Inr (PDict [])) =
         Inl (Raised RuntimeError (''Generation failed: '' @ m)))"
  using generate_response_shapes [of "[(''generation'', PStr ''X'')]" "PStr ''X''" "[]" "PDict []"]
    generate_response_shapes [of "[(''generated_text'', PStr ''Y'')]" "PStr ''Y''" "[]" "PDict []"]
    generate_response_shapes [of "[(''generated_text'', PStr ''Z'')]" "PStr ''Z''" "[]" "PDict []"]
  by (simp add: known_shape_def)

text \<open>
  Claim C2 as the specification words it fails on a dictionary that has both keys: it
  has the key \<open>generation\<close>, and the resolver returns the value of \<open>generated_text\<close>.
\<close>

theorem generate_response_both_keys_counterexample:
  "map_of [(''generated_text'', PStr ''A''), (''generation'', PStr ''B'')] ''generation''
     = Some (PStr ''B'') \<and>
   generate_response
     (Inr (PDict [(''generated_text'', PStr ''A''), (''generation'', PStr ''B'')]))
     = Inr (PStr ''A'') \<and>
   PStr ''A'' \<noteq> PStr ''B''"
  by (simp add: generate_response_def resolve_result_def)

section \<open>Properties of the metadata filter\<close>

lemma clause_pair_equals_clause: "clause_pair (equals_clause p) = Some p"
  by (simp add: clause_pair_def equals_clause_def)

lemma those_map_clauses: "those (map (clause_pair \<circ> equals_clause) ps) = Some ps"
  by (induction ps) (simp_all add: clause_pair_equals_clause)

text \<open>
  Claim C7. A filter built from a list of pairs reads back as exactly those pairs: one
  \<open>equals\<close> clause per pair, each with the pair's key and value, in order, under a
  single top-level \<open>andAll\<close>, with nothing else and nothing nested (\<open>and_all_clauses\<close>
  gives \<open>None\<close> on any other shape). The literal \<open>one_group_filter\<close> of the notebooks is
  the filter built from its two pairs.
\<close>

theorem and_all_filter_clauses:
  "and_all_clauses (and_all_filter ps) = Some ps \<and>
   one_group_filter =
     and_all_filter [(''docType'', PStr ''10K Report''), (''year'', PInt 2023)]"
  by (simp add: and_all_clauses_def and_all_filter_def those_map_clauses
      one_group_filter_def equals_clause_def)

section \<open>Properties of the request configuration\<close>

lemma build_kb_config_eq:
  "build_kb_config kb arn mf ug gid gv =
     (if ug \<and> \<not> truthy gid
      then Inl (Raised ValueError ''guardrail_id is required when use_guardrails is True'')
      else Inr (kb_config_value kb arn mf ug gid gv))"
  by (simp add: build_kb_config_def kb_config_value_def Let_def bindE_def)

lemma getitem_path_Cons_dict:
  "getitem_path (PDict d) (k # ps) =
     (case map_of d k of
        None \<Rightarrow> Inl (Raised KeyError (quoted k))
      | Some v \<Rightarrow> getitem_path v ps)"
  by (simp add: bindE_def split: option.splits)

text \<open>
  Reading any path that neither leads into the filter nor leads to a dictionary that
  holds it gives the same result whatever the filter: first inside the vector search
  configuration, then inside the retrieval configuration, then in the whole.
\<close>

lemma frame_vector_search:
  assumes "ps \<noteq> []" "\<not> prefix [''filter''] ps"
  shows "getitem_path
           (PDict ((''numberOfResults'', PInt 5) #
                   (if truthy mf then [(''filter'', mf)] else []))) ps
       = getitem_path
           (PDict ((''numberOfResults'', PInt 5) #
                   (if truthy mf' then [(''filter'', mf')] else []))) ps"
proof (cases ps)
  case Nil
  with assms show ?thesis by simp
next
  case (Cons k qs)
  with assms have "k \<noteq> ''filter''" by simp
  with Cons show ?thesis by (simp add: bindE_def)
qed

lemma frame_retrieval:
  assumes "ps \<noteq> []"
    and "\<not> prefix [''vectorSearchConfiguration'', ''filter''] ps"
    and "\<not> prefix ps [''vectorSearchConfiguration'', ''filter'']"
  shows "getitem_path
           (PDict [(''vectorSearchConfiguration'',
              PDict ((''numberOfResults'', PInt 5) #
                     (if truthy mf then [(''filter'', mf)] else [])))]) ps
       = getitem_path
           (PDict [(''vectorSearchConfiguration'',
              PDict ((''numberOfResults'', PInt 5) #
                     (if truthy mf' then [(''filter'', mf')] else [])))]) ps"
proof (cases ps)
  case Nil
  with assms show ?thesis by simp
next
  case (Cons k qs)
  show ?thesis
  proof (cases "k = ''vectorSearchConfiguration''")
    case True
    with Cons assms have "qs \<noteq> []" "\<not> prefix [''filter''] qs" by auto
    from frame_vector_search [OF this] Cons True show ?thesis
      unfolding getitem_path_Cons_dict by simp
  next
    case False
    with Cons show ?thesis unfolding getitem_path_Cons_dict by simp
  qed
qed

lemma frame_kb_config:
  assumes "\<not> prefix filter_path p" "\<not> prefix p filter_path"
  shows "getitem_path (kb_config_value kb arn mf ug gid gv) p
       = getitem_path (kb_config_value kb arn mf' ug gid gv) p"
proof (cases p)
  case Nil
  with assms show ?thesis by simp
next
  case (Cons k qs)
  show ?thesis
  proof (cases "k = ''retrievalConfiguration''")
    case True
    with Cons assms have "qs \<noteq> []"
      "\<not> prefix [''vectorSearchConfiguration'', ''filter''] qs"
      "\<not> prefix qs [''vectorSearchConfiguration'', ''filter'']"
      by (auto simp: filter_path_def)
    from frame_retrieval [OF this] Cons True show ?thesis
      unfolding getitem_path_Cons_dict kb_config_value_def by simp
  next
    case False
    with Cons show ?thesis
      unfolding getitem_path_Cons_dict kb_config_value_def by simp
  qed
qed

lemma kb_fields:
  "getitem_path (kb_config_value kb arn mf ug gid gv) [''knowledgeBaseId''] = Inr (PStr kb)"
  "getitem_path (kb_config_value kb arn mf ug gid gv) [''modelArn''] = Inr (PStr arn)"
  "getitem_path (kb_config_value kb arn mf ug gid gv)
     [''retrievalConfiguration'', ''vectorSearchConfiguration'', ''numberOfResults'']
     = Inr (PInt 5)"
  "getitem_path (kb_config_value kb arn mf ug gid gv)
     [''generationConfiguration'', ''promptTemplate'', ''textPromptTemplate'']
     = Inr (PStr prompt_template_text)"
  "getitem_path (kb_config_value kb arn mf ug gid gv) filter_path
     = (if truthy mf then Inr mf else Inl (Raised KeyError (quoted ''filter'')))"
  "getitem_path (kb_config_value kb arn mf ug gid gv)
     [''generationConfiguration'', ''guardrailConfiguration'']
     = (if ug then Inr (PDict ((''guardrailId'', gid) #
                          (if truthy gv then [(''guardrailVersion'', gv)] else [])))
        else Inl (Raised KeyError (quoted ''guardrailConfiguration'')))"
  by (simp_all add: kb_config_value_def filter_path_def)

lemma kb_config_value_no_guardrails:
  "kb_config_value kb arn mf False gid gv = kb_config_value kb arn mf False PNone PNone"
  by (simp add: kb_config_value_def)

lemma invoker_eq:
  "retrieve_and_generate_with_conditional_guardrails service query kb arn mf ug gid gv =
     (if ug \<and> \<not> truthy gid
      then (Inl (Raised ValueError ''guardrail_id is required when use_guardrails is True''), [])
      else (service (rag_request query (kb_config_value kb arn mf ug gid gv)),
            [rag_request query (kb_config_value kb arn mf ug gid gv)]))"
  by (simp add: retrieve_and_generate_with_conditional_guardrails_def build_kb_config_eq)

text \<open>
  Claim C10, as the code has it. Whether the configuration is built or the ValueError is
  raised does not depend on the filter. With and without a filter, the two
  configurations agree on every path that neither leads into the filter nor ends at a
  dictionary holding it; the configuration has the given knowledge base and model,
  \<open>numberOfResults\<close> 5 and the prompt template; and the \<open>filter\<close> field is there, with
  the given value, exactly when \<open>metadata_filter\<close> is truthy: \<open>None\<close> and the empty
  dictionary both leave it out.
\<close>

theorem kb_config_filter_frame:
  "((\<exists>e. build_kb_config kb arn mf ug gid gv = Inl e) \<longleftrightarrow>
    (\<exists>e. build_kb_config kb arn PNone ug gid gv = Inl e)) \<and>
   (\<forall>c c' p. build_kb_config kb arn mf ug gid gv = Inr c \<and>
        build_kb_config kb arn PNone ug gid gv = Inr c' \<and>
        \<not> prefix filter_path p \<and> \<not> prefix p filter_path \<longrightarrow>
        getitem_path c p = getitem_path c' p) \<and>
   (\<forall>c. build_kb_config kb arn mf ug gid gv = Inr c \<longrightarrow>
        getitem_path c [''knowledgeBaseId''] = Inr (PStr kb) \<and>
        getitem_path c [''modelArn''] = Inr (PStr arn) \<and>
        getitem_path c [''retrievalConfiguration'', ''vectorSearchConfiguration'',
                        ''numberOfResults''] = Inr (PInt 5) \<and>
        getitem_path c [''generationConfiguration'', ''promptTemplate'',
                        ''textPromptTemplate''] = Inr (PStr prompt_template_text) \<and>
        getitem_path c filter_path =
          (if truthy mf then Inr mf else Inl (Raised KeyError (quoted ''filter''))))"
  using frame_kb_config [of _ kb arn mf ug gid gv PNone]
  by (auto simp: build_kb_config_eq kb_fields simp del: getitem_path.simps split: if_splits)

text \<open>
  The call of the notebook (the filter \<open>one_group_filter\<close>, guardrails on) against the
  same call without a filter: both build a configuration, the guardrail identifier is
  read the same from both, and the filter is in the first.
\<close>

theorem kb_config_filter_frame_witness:
  "build_kb_config ''KB1'' ''arn:model'' one_group_filter True (PStr ''gr1'') (PStr ''1'') =
     Inr (kb_config_value ''KB1'' ''arn:model'' one_group_filter True
            (PStr ''gr1'') (PStr ''1'')) \<and>
   build_kb_config ''KB1'' ''arn:model'' PNone True (PStr ''gr1'') (PStr ''1'') =
     Inr (kb_config_value ''KB1'' ''arn:model'' PNone True (PStr ''gr1'') (PStr ''1'')) \<and>
   \<not> prefix filter_path
       [''generationConfiguration'', ''guardrailConfiguration'', ''guardrailId''] \<and>
   \<not> prefix [''generationConfiguration'', ''guardrailConfiguration'', ''guardrailId'']
       filter_path \<and>
   getitem_path
     (kb_config_value ''KB1'' ''arn:model'' one_group_filter True (PStr ''gr1'') (PStr ''1''))
     [''generationConfiguration'', ''guardrailConfiguration'', ''guardrailId''] =
   getitem_path
     (kb_config_value ''KB1'' ''arn:model'' PNone True (PStr ''gr1'') (PStr ''1''))
     [''generationConfiguration'', ''guardrailConfiguration'', ''guardrailId''] \<and>
   getitem_path
     (kb_config_value ''KB1'' ''arn:model'' one_group_filter True (PStr ''gr1'') (PStr ''1''))
     filter_path = Inr one_group_filter"
  using kb_config_filter_frame [of "''KB1''" "''arn:model''" one_group_filter True
      "PStr ''gr1''" "PStr ''1''"]
  by (simp add: build_kb_config_eq filter_path_def one_group_filter_def
      del: getitem_path.simps)

text \<open>
  Claim C10 as worded fails on a filter that is given and empty: \<open>{}\<close> is not \<open>None\<close>,
  and the configuration is the one built without a filter, with no \<open>filter\<close> field.
\<close>

theorem kb_config_empty_filter_counterexample:
  "PDict [] \<noteq> PNone \<and>
   build_kb_config ''KB1'' ''arn:model'' (PDict []) False PNone PNone =
     build_kb_config ''KB1'' ''arn:model'' PNone False PNone PNone \<and>
   bindE (build_kb_config ''KB1'' ''arn:model'' (PDict []) False PNone PNone)
     (\<lambda>c. getitem_path c filter_path) = Inl (Raised KeyError (quoted ''filter''))"
  by (simp add: build_kb_config_eq kb_config_value_def filter_path_def)

text \<open>
  Claim C9, as the code has it. No request is issued exactly when guardrails are asked
  for and \<open>guardrail_id\<close> is falsy (\<open>None\<close> or the empty string), and then the call
  raises the ValueError. With guardrails and a truthy \<open>guardrail_id\<close> the one request
  carries a \<open>guardrailConfiguration\<close> with that \<open>guardrailId\<close>, and with a
  \<open>guardrailVersion\<close> exactly when \<open>guardrail_version\<close> is truthy. Without guardrails
  the one request has no \<open>guardrailConfiguration\<close> and its configuration is the one
  built with neither identifier nor version.
\<close>

theorem guardrail_configuration:
  "(snd (retrieve_and_generate_with_conditional_guardrails service query kb arn mf ug gid gv) = []
      \<longleftrightarrow> ug \<and> \<not> truthy gid) \<and>
   (ug \<and> \<not> truthy gid \<longrightarrow>
      retrieve_and_generate_with_conditional_guardrails service query kb arn mf ug gid gv =
        (Inl (Raised ValueError ''guardrail_id is required when use_guardrails is True''), [])) \<and>
   (ug \<and> truthy gid \<longrightarrow>
      (\<exists>c. snd (retrieve_and_generate_with_conditional_guardrails service query kb arn mf ug
                  gid gv) = [rag_request query c] \<and>
           getitem_path c [''generationConfiguration'', ''guardrailConfiguration''] =
             Inr (PDict ((''guardrailId'', gid) #
                         (if truthy gv then [(''guardrailVersion'', gv)] else []))))) \<and>
   (\<not> ug \<longrightarrow>
      (\<exists>c. snd (retrieve_and_generate_with_conditional_guardrails service query kb arn mf ug
                  gid gv) = [rag_request query c] \<and>
           getitem_path c [''generationConfiguration'', ''guardrailConfiguration''] =
             Inl (Raised KeyError (quoted ''guardrailConfiguration'')) \<and>
           build_kb_config kb arn mf ug PNone PNone = Inr c))"
proof -
  have 1: "snd (retrieve_and_generate_with_conditional_guardrails service query kb arn mf ug
             gid gv) = [] \<longleftrightarrow> ug \<and> \<not> truthy gid"
    by (simp add: invoker_eq)
  have 2: "ug \<and> \<not> truthy gid \<longrightarrow>
      retrieve_and_generate_with_conditional_guardrails service query kb arn mf ug gid gv =
        (Inl (Raised ValueError ''guardrail_id is required when use_guardrails is True''), [])"
    by (simp add: invoker_eq)
  have 3: "ug \<and> truthy gid \<longrightarrow>
      (\<exists>c. snd (retrieve_and_generate_with_conditional_guardrails service query kb arn mf ug
                  gid gv) = [rag_request query c] \<and>
           getitem_path c [''generationConfiguration'', ''guardrailConfiguration''] =
             Inr (PDict ((''guardrailId'', gid) #
                         (if truthy gv then [(''guardrailVersion'', gv)] else []))))"
    by (auto simp: invoker_eq kb_fields simp del: getitem_path.simps)
  have 4: "\<not> ug \<longrightarrow>
      (\<exists>c. snd (retrieve_and_generate_with_conditional_guardrails service query kb arn mf ug
                  gid gv) = [rag_request query c] \<and>
           getitem_path c [''generationConfiguration'', ''guardrailConfiguration''] =
             Inl (Raised KeyError (quoted ''guardrailConfiguration'')) \<and>
           build_kb_config kb arn mf ug PNone PNone = Inr c)"
    using kb_config_value_no_guardrails [of kb arn mf gid gv]
    by (auto simp: invoker_eq kb_fields build_kb_config_eq simp del: getitem_path.simps)
  from 1 2 3 4 show ?thesis by blast
qed

text \<open>
  Four calls against a service that always answers: guardrails without an identifier,
  with identifier and version, with identifier only, and guardrails off.
\<close>

theorem guardrail_configuration_witness:
  "retrieve_and_generate_with_conditional_guardrails (\<lambda>request. Inr (PStr ''answer''))
      ''q'' ''KB1'' ''arn:model'' PNone True PNone PNone =
     (Inl (Raised ValueError ''guardrail_id is required when use_guardrails is True''), []) \<and>
   (\<exists>c. snd (retrieve_and_generate_with_conditional_guardrails
               (\<lambda>request. Inr (PStr ''answer''))
               ''q'' ''KB1'' ''arn:model'' PNone True (PStr ''gr1'') (PStr ''1''))
           = [rag_request ''q'' c] \<and>
        getitem_path c [''generationConfiguration'', ''guardrailConfiguration''] =
          Inr (PDict [(''guardrailId'', PStr ''gr1''), (''guardrailVersion'', PStr ''1'')])) \<and>
   (\<exists>c. snd (retrieve_and_generate_with_conditional_guardrails
               (\<lambda>request. Inr (PStr ''answer''))
               ''q'' ''KB1'' ''arn:model'' PNone True (PStr ''gr1'') PNone)
           = [rag_request ''q'' c] \<and>
        getitem_path c [''generationConfiguration'', ''guardrailConfiguration''] =
          Inr (PDict [(''guardrailId'', PStr ''gr1'')])) \<and>
   (\<exists>c. snd (retrieve_and_generate_with_conditional_guardrails
               (\<lambda>request. Inr (PStr ''answer''))
               ''q'' ''KB1'' ''arn:model'' PNone False (PStr ''gr1'') (PStr ''1''))
           = [rag_request ''q'' c] \<and>
        getitem_path c [''generationConfiguration'', ''guardrailConfiguration''] =
          Inl (Raised KeyError (quoted ''guardrailConfiguration'')))"
  using guardrail_configuration [of "\<lambda>request. Inr (PStr ''answer'')" "''q''" "''KB1''"
      "''arn:model''" PNone True PNone PNone]
    guardrail_configuration [of "\<lambda>request. Inr (PStr ''answer'')" "''q''" "''KB1''"
      "''arn:model''" PNone True "PStr ''gr1''" "PStr ''1''"]
    guardrail_configuration [of "\<lambda>request. Inr (PStr ''answer'')" "''q''" "''KB1''"
      "''arn:model''" PNone True "PStr ''gr1''" PNone]
    guardrail_configuration [of "\<lambda>request. Inr (PStr ''answer'')" "''q''" "''KB1''"
      "''arn:model''" PNone False "PStr ''gr1''" "PStr ''1''"]
  by (simp del: getitem_path.simps) blast

text \<open>
  Claim C9 as worded fails on arguments that are given and empty. With guardrails on
  and the identifier \<open>''\<close> (given, not \<open>None\<close>) the call raises the ValueError and
  issues no request; with the version \<open>''\<close> the request is the one built with no
  version.
\<close>

theorem guardrail_empty_id_counterexample:
  "PStr '''' \<noteq> PNone \<and>
   retrieve_and_generate_with_conditional_guardrails (\<lambda>request. Inr (PStr ''answer''))
      ''q'' ''KB1'' ''arn:model'' PNone True (PStr '''') (PStr ''1'') =
     (Inl (Raised ValueError ''guardrail_id is required when use_guardrails is True''), []) \<and>
   snd (retrieve_and_generate_with_conditional_guardrails (\<lambda>request. Inr (PStr ''answer''))
      ''q'' ''KB1'' ''arn:model'' PNone True (PStr ''gr1'') (PStr '''')) =
     [rag_request ''q'' (kb_config_value ''KB1'' ''arn:model'' PNone True (PStr ''gr1'') PNone)]"
  by (simp add: invoker_eq kb_config_value_def)

section \<open>Properties of the two invokers\<close>

text \<open>
  The comprehension of \<open>retrieve_from_bedrock\<close> gives the text of a result exactly when
  the result has one; over a list of results that all have one it gives all the texts,
  in order; one result without a text makes it raise.
\<close>

lemma content_text_iff:
  "bindE (getitem_str r ''content'') (\<lambda>c. getitem_str c ''text'') = Inr t \<longleftrightarrow>
   result_text r = Some t"
proof (cases r)
  case (PDict rd)
  show ?thesis
  proof (cases "map_of rd ''content''")
    case None
    with PDict show ?thesis by (simp add: result_text_def)
  next
    case (Some c)
    with PDict show ?thesis
      by (cases c) (auto simp: result_text_def split: option.splits)
  qed
qed (simp_all add: result_text_def)

lemma mapE_all_texts:
  "map result_text rs = map Some ts \<Longrightarrow>
   mapE (\<lambda>result. bindE (getitem_str result ''content'') (\<lambda>c. getitem_str c ''text'')) rs
     = Inr ts"
proof (induction rs arbitrary: ts)
  case Nil
  then show ?case by simp
next
  case (Cons r rs)
  then obtain t ts' where ts: "ts = t # ts'" "result_text r = Some t"
    "map result_text rs = map Some ts'" by (cases ts) auto
  from ts(2) have "bindE (getitem_str r ''content'') (\<lambda>c. getitem_str c ''text'') = Inr t"
    by (simp add: content_text_iff)
  with Cons.IH [OF ts(3)] ts(1) show ?case by simp
qed

lemma mapE_text_missing:
  "r \<in> set rs \<Longrightarrow> result_text r = None \<Longrightarrow>
   \<exists>e. mapE (\<lambda>result. bindE (getitem_str result ''content'') (\<lambda>c. getitem_str c ''text'')) rs
     = Inl e"
proof (induction rs)
  case Nil
  then show ?case by simp
next
  case (Cons x rs)
  let ?f = "\<lambda>result. bindE (getitem_str result ''content'') (\<lambda>c. getitem_str c ''text'')"
  show ?case
  proof (cases "?f x")
    case (Inl e)
    then show ?thesis by simp
  next
    case (Inr t)
    then have "result_text x = Some t" by (simp add: content_text_iff)
    with Cons.prems have "r \<in> set rs" by auto
    from Cons.IH [OF this Cons.prems(2)] obtain e where "mapE ?f rs = Inl e" by blast
    with Inr show ?thesis by simp
  qed
qed

lemma result_texts_list:
  assumes "map_of d ''retrievalResults'' = Some (PList rs)"
  shows "result_texts (PDict d) =
     mapE (\<lambda>result. bindE (getitem_str result ''content'') (\<lambda>c. getitem_str c ''text'')) rs"
  using assms by (simp add: result_texts_def)

lemma retrieve_from_bedrock_error:
  "fst (retrieve_from_bedrock service kb query) = Inl e \<Longrightarrow>
   \<exists>m. e = Raised RuntimeError (''Bedrock retrieval failed: '' @ m)"
  by (auto simp: retrieve_from_bedrock_def split: sum.splits)

text \<open>
  Claim C6, as the code has it. \<open>retrieve_and_generate_with_conditional_guardrails\<close>
  issues at most one request. When it issues one, the request carries the query and the
  function's outcome is the service's outcome for that request as it is: the response
  unchanged, or the service's own exception, not wrapped. When it issues none, it has
  raised the ValueError. \<open>retrieve_from_bedrock\<close> issues exactly one request, which
  carries the query. An exception of the service comes out as a RuntimeError whose text
  is \<open>Bedrock retrieval failed: \<close> and the original text. A response whose
  \<open>retrievalResults\<close> is a list of results that all have a text comes out as the list of
  all these texts, in order, not as the response; if one of the results has no text, a
  RuntimeError with that prefix comes out; and whatever the function raises is such a
  RuntimeError.
\<close>

theorem invokers_one_call:
  "length (snd (retrieve_and_generate_with_conditional_guardrails service query kb arn mf ug
             gid gv)) \<le> 1 \<and>
   (\<forall>request.
      snd (retrieve_and_generate_with_conditional_guardrails service query kb arn mf ug gid gv)
        = [request] \<longrightarrow>
      fst (retrieve_and_generate_with_conditional_guardrails service query kb arn mf ug gid gv)
        = service request \<and>
      getitem_path request [''input'', ''text''] = Inr (PStr query)) \<and>
   (snd (retrieve_and_generate_with_conditional_guardrails service query kb arn mf ug gid gv)
      = [] \<longrightarrow>
    fst (retrieve_and_generate_with_conditional_guardrails service query kb arn mf ug gid gv)
      = Inl (Raised ValueError ''guardrail_id is required when use_guardrails is True'')) \<and>
   snd (retrieve_from_bedrock service' kb query) = [retrieve_request kb query] \<and>
   getitem_path (retrieve_request kb query) [''retrievalQuery'', ''text''] = Inr (PStr query) \<and>
   (service' (retrieve_request kb query) = Inl e' \<longrightarrow>
      fst (retrieve_from_bedrock service' kb query) =
        Inl (Raised RuntimeError (''Bedrock retrieval failed: '' @ py_str e'))) \<and>
   (service' (retrieve_request kb query) = Inr (PDict d) \<and>
    map_of d ''retrievalResults'' = Some (PList rs) \<and>
    map result_text rs = map Some ts \<longrightarrow>
      fst (retrieve_from_bedrock service' kb query) = Inr ts) \<and>
   (service' (retrieve_request kb query) = Inr (PDict d) \<and>
    map_of d ''retrievalResults'' = Some (PList rs) \<and>
    (\<exists>r \<in> set rs. result_text r = None) \<longrightarrow>
      (\<exists>m. fst (retrieve_from_bedrock service' kb query) =
         Inl (Raised RuntimeError (''Bedrock retrieval failed: '' @ m)))) \<and>
   (\<forall>e. fst (retrieve_from_bedrock service' kb query) = Inl e \<longrightarrow>
      (\<exists>m. e = Raised RuntimeError (''Bedrock retrieval failed: '' @ m)))"
proof -
  let ?R = "retrieve_and_generate_with_conditional_guardrails service query kb arn mf ug gid gv"
  have 1: "length (snd ?R) \<le> 1"
    by (simp add: invoker_eq)
  have 2: "\<forall>request. snd ?R = [request] \<longrightarrow>
      fst ?R = service request \<and> getitem_path request [''input'', ''text''] = Inr (PStr query)"
    by (simp add: invoker_eq rag_request_def)
  have 3: "snd ?R = [] \<longrightarrow>
    fst ?R = Inl (Raised ValueError ''guardrail_id is required when use_guardrails is True'')"
    by (simp add: invoker_eq)
  have 4: "snd (retrieve_from_bedrock service' kb query) = [retrieve_request kb query]"
    by (simp add: retrieve_from_bedrock_def)
  have 5: "getitem_path (retrieve_request kb query) [''retrievalQuery'', ''text'']
      = Inr (PStr query)"
    by (simp add: retrieve_request_def)
  have 6: "service' (retrieve_request kb query) = Inl e' \<longrightarrow>
      fst (retrieve_from_bedrock service' kb query) =
        Inl (Raised RuntimeError (''Bedrock retrieval failed: '' @ py_str e'))"
    by (simp add: retrieve_from_bedrock_def)
  have 7: "service' (retrieve_request kb query) = Inr (PDict d) \<and>
    map_of d ''retrievalResults'' = Some (PList rs) \<and>
    map result_text rs = map Some ts \<longrightarrow>
      fst (retrieve_from_bedrock service' kb query) = Inr ts"
    by (simp add: retrieve_from_bedrock_def result_texts_list mapE_all_texts
        del: getitem_str.simps)
  have 8: "service' (retrieve_request kb query) = Inr (PDict d) \<and>
    map_of d ''retrievalResults'' = Some (PList rs) \<and>
    (\<exists>r \<in> set rs. result_text r = None) \<longrightarrow>
      (\<exists>m. fst (retrieve_from_bedrock service' kb query) =
         Inl (Raised RuntimeError (''Bedrock retrieval failed: '' @ m)))"
  proof
    assume a: "service' (retrieve_request kb query) = Inr (PDict d) \<and>
      map_of d ''retrievalResults'' = Some (PList rs) \<and>
      (\<exists>r \<in> set rs. result_text r = None)"
    then obtain r where "r \<in> set rs" "result_text r = None" by blast
    from mapE_text_missing [OF this] obtain e where
      "mapE (\<lambda>result. bindE (getitem_str result ''content'') (\<lambda>c. getitem_str c ''text'')) rs
        = Inl e" by blast
    with a have "result_texts (PDict d) = Inl e" by (simp add: result_texts_list)
    with a show "\<exists>m. fst (retrieve_from_bedrock service' kb query) =
         Inl (Raised RuntimeError (''Bedrock retrieval failed: '' @ m))"
      by (simp add: retrieve_from_bedrock_def)
  qed
  have 9: "\<forall>e. fst (retrieve_from_bedrock service' kb query) = Inl e \<longrightarrow>
      (\<exists>m. e = Raised RuntimeError (''Bedrock retrieval failed: '' @ m))"
    using retrieve_from_bedrock_error by blast
  from 1 2 3 4 5 6 7 8 9 show ?thesis by (intro conjI)
qed

text \<open>
  A throttled service, a service that answers with two retrieval results, and one whose
  second result has no text. The guardrail invoker passes the service's exception on
  and the retrieval wraps it; a missing \<open>guardrail_id\<close> costs no request; the retrieval
  returns both texts, in order; the result without a text makes it raise.
\<close>

theorem invokers_one_call_witness:
  "retrieve_and_generate_with_conditional_guardrails
      (\<lambda>request. Inl (Raised ServiceError ''ThrottlingException'') :: py_error + pyval)
      ''q'' ''KB1'' ''arn:model'' PNone False PNone PNone =
     (Inl (Raised ServiceError ''ThrottlingException''),
      [rag_request ''q'' (kb_config_value ''KB1'' ''arn:model'' PNone False PNone PNone)]) \<and>
   retrieve_and_generate_with_conditional_guardrails
      (\<lambda>request. Inr (PStr ''answer''))
      ''q'' ''KB1'' ''arn:model'' PNone True PNone PNone =
     (Inl (Raised ValueError ''guardrail_id is required when use_guardrails is True''), []) \<and>
   retrieve_from_bedrock (\<lambda>request. Inl (Raised ServiceError ''ThrottlingException''))
      ''KB1'' ''q'' =
     (Inl (Raised RuntimeError ''Bedrock retrieval failed: ThrottlingException''),
      [retrieve_request ''KB1'' ''q'']) \<and>
   map result_text
     [PDict [(''content'', PDict [(''text'', PStr ''chunk one'')]), (''score'', PInt 1)],
      PDict [(''content'', PDict [(''text'', PStr ''chunk two'')])]] =
     map Some [PStr ''chunk one'', PStr ''chunk two''] \<and>
   retrieve_from_bedrock
      (\<lambda>request. Inr (PDict [(''retrievalResults'',
         PList [PDict [(''content'', PDict [(''text'', PStr ''chunk one'')]),
                       (''score'', PInt 1)],
                PDict [(''content'', PDict [(''text'', PStr ''chunk two'')])]])]))
      ''KB1'' ''q'' =
     (Inr [PStr ''chunk one'', PStr ''chunk two''], [retrieve_request ''KB1'' ''q'']) \<and>
   result_text (PDict [(''score'', PInt 2)]) = None \<and>
   (\<exists>m. fst (retrieve_from_bedrock
      (\<lambda>request. Inr (PDict [(''retrievalResults'',
         PList [PDict [(''content'', PDict [(''text'', PStr ''chunk one'')])],
                PDict [(''score'', PInt 2)]])]))
      ''KB1'' ''q'') = Inl (Raised RuntimeError (''Bedrock retrieval failed: '' @ m)))"
  using
    invokers_one_call [where service =
        "\<lambda>request. Inl (Raised ServiceError ''ThrottlingException'') :: py_error + pyval"
      and query = "''q''" and kb = "''KB1''" and arn = "''arn:model''" and mf = PNone
      and ug = False and gid = PNone and gv = PNone
      and service' = "\<lambda>request. Inl (Raised ServiceError ''ThrottlingException'')"
      and e' = "Raised ServiceError ''ThrottlingException''"]
    invokers_one_call [where service = "\<lambda>request. Inr (PStr ''answer'')"
      and query = "''q''" and kb = "''KB1''" and arn = "''arn:model''" and mf = PNone
      and ug = True and gid = PNone and gv = PNone
      and service' = "\<lambda>request. Inr (PDict [(''retrievalResults'',
         PList [PDict [(''content'', PDict [(''text'', PStr ''chunk one'')]),
                       (''score'', PInt 1)],
                PDict [(''content'', PDict [(''text'', PStr ''chunk two'')])]])])"
      and d = "[(''retrievalResults'',
         PList [PDict [(''content'', PDict [(''text'', PStr ''chunk one'')]),
                       (''score'', PInt 1)],
                PDict [(''content'', PDict [(''text'', PStr ''chunk two'')])]])]"
      and rs = "[PDict [(''content'', PDict [(''text'', PStr ''chunk one'')]),
                       (''score'', PInt 1)],
                PDict [(''content'', PDict [(''text'', PStr ''chunk two'')])]]"
      and ts = "[PStr ''chunk one'', PStr ''chunk two'']"]
    invokers_one_call [where service = "\<lambda>request. Inr (PStr ''answer'')"
      and query = "''q''" and kb = "''KB1''" and arn = "''arn:model''" and mf = PNone
      and ug = True and gid = PNone and gv = PNone
      and service' = "\<lambda>request. Inr (PDict [(''retrievalResults'',
         PList [PDict [(''content'', PDict [(''text'', PStr ''chunk one'')])],
                PDict [(''score'', PInt 2)]])])"
      and d = "[(''retrievalResults'',
         PList [PDict [(''content'', PDict [(''text'', PStr ''chunk one'')])],
                PDict [(''score'', PInt 2)]])]"
      and rs = "[PDict [(''content'', PDict [(''text'', PStr ''chunk one'')])],
                PDict [(''score'', PInt 2)]]"]
  by (simp add: invoker_eq result_text_def prod_eq_iff)

text \<open>
  Claim C6 as worded fails on both invokers. When the service raises, the guardrail
  invoker raises the service's exception itself, which is no RuntimeError; and when the
  service answers, \<open>retrieve_from_bedrock\<close> returns the list of texts, which is not the
  response.
\<close>

theorem invokers_counterexample:
  "fst (retrieve_and_generate_with_conditional_guardrails
      (\<lambda>request. Inl (Raised ServiceError ''ThrottlingException'') :: py_error + pyval)
      ''q'' ''KB1'' ''arn:model'' PNone False PNone PNone) =
     Inl (Raised ServiceError ''ThrottlingException'') \<and>
   exc_class_of (Raised ServiceError ''ThrottlingException'') \<noteq> RuntimeError \<and>
   fst (retrieve_from_bedrock
      (\<lambda>request. Inr (PDict [(''retrievalResults'',
         PList [PDict [(''content'', PDict [(''text'', PStr ''chunk one'')]),
                       (''score'', PInt 1)]])]))
      ''KB1'' ''q'') = Inr [PStr ''chunk one''] \<and>
   PList [PStr ''chunk one''] \<noteq>
     PDict [(''retrievalResults'',
         PList [PDict [(''content'', PDict [(''text'', PStr ''chunk one'')]),
                       (''score'', PInt 1)]])]"
  by (simp add: invoker_eq retrieve_from_bedrock_def result_texts_def)


section \<open>Properties of the prompt\<close>

lemma strip_core:
  assumes "\<And>ch. ch \<in> set w1 \<Longrightarrow> is_space ch" "\<And>ch. ch \<in> set w2 \<Longrightarrow> is_space ch"
    and "\<not> is_space a" "\<not> is_space z"
  shows "strip (w1 @ a # m @ z # w2) = a # m @ [z]"
proof -
  have "dropWhile is_space (w1 @ a # m @ z # w2) = a # m @ z # w2"
    using assms(1,3) by (simp add: dropWhile_append2)
  moreover have "dropWhile is_space (rev w2 @ z # rev m @ [a]) = z # rev m @ [a]"
    using assms(2,4) dropWhile_append2 [of "rev w2" is_space "z # rev m @ [a]"] by simp
  ultimately show ?thesis by (simp add: strip_def)
qed

lemma nl8_space: "ch \<in> set nl8 \<Longrightarrow> is_space ch"
  by (auto simp: nl8_def is_space_def)

text \<open>
  The strip removes the indentation before the first \<open><\<close> and after the last \<open>>\<close> and
  nothing else, so a prompt is the head, the joined context, the middle, the question
  and the tail.
\<close>

lemma format_prompt_eq:
  "format_prompt query c = prompt_head @ join_space c @ prompt_middle @ query @ prompt_tail"
proof -
  define m where "m = ''|begin_of_text|>'' @ nl8 @
            ''<|start_header_id|>system<|end_header_id|>'' @ nl8 @
            system_prompt c @ nl8 @
            ''<|start_header_id|>user<|end_header_id|>'' @ nl8 @
            ''Question: '' @ query @ nl8 @
            ''<|start_header_id|>assistant<|end_header_id|''"
  have "format_prompt query c = strip (nl8 @ CHR ''<'' # m @ CHR ''>'' # nl8)"
    by (simp add: format_prompt_def m_def)
  also have "\<dots> = CHR ''<'' # m @ [CHR ''>'']"
  proof (rule strip_core)
    show "\<not> is_space CHR ''<''" "\<not> is_space CHR ''>''"
      by (simp_all add: is_space_def)
  qed (rule nl8_space, assumption)+
  also have "\<dots> = prompt_head @ join_space c @ prompt_middle @ query @ prompt_tail"
    by (simp add: m_def prompt_head_def prompt_middle_def prompt_tail_def system_prompt_def)
  finally show ?thesis .
qed

text \<open>
  \<open>is_substring\<close> is the usual relation, and a text holds nothing longer than itself.
\<close>

lemma is_substring_iff: "is_substring k s \<longleftrightarrow> (\<exists>ps ss. s = ps @ k @ ss)"
proof
  assume "is_substring k s"
  then obtain ys where "ys \<in> set (suffixes s)" "prefix k ys"
    by (auto simp: is_substring_def)
  then obtain ps ss where "s = ps @ ys" "ys = k @ ss"
    by (auto simp: in_set_suffixes suffix_def prefix_def)
  then show "\<exists>ps ss. s = ps @ k @ ss" by auto
next
  assume "\<exists>ps ss. s = ps @ k @ ss"
  then obtain ps ss where s: "s = ps @ k @ ss" by blast
  then have "k @ ss \<in> set (suffixes s)" by (simp add: in_set_suffixes suffix_def)
  moreover have "prefix k (k @ ss)" by simp
  ultimately show "is_substring k s" unfolding is_substring_def by blast
qed

lemma is_substring_length: "is_substring k s \<Longrightarrow> length k \<le> length s"
  by (auto simp: is_substring_iff)

text \<open>
  A separator that starts with a character found nowhere else in it, and that occurs in
  neither of the texts that follow it, splits a text in one way only: a second
  occurrence would either overlap the first, and repeat the first character, or lie
  in the text that follows.
\<close>

lemma separator_split:
  assumes eq: "c1 @ (x # b) @ q1 = c2 @ (x # b) @ q2"
    and xb: "x \<notin> set b"
    and n1: "\<not> is_substring (x # b) q1" and n2: "\<not> is_substring (x # b) q2"
  shows "c1 = c2 \<and> q1 = q2"
proof -
  have one: "us = []"
    if h: "us @ (x # b) @ q = (x # b) @ q'" and nq: "\<not> is_substring (x # b) q'" for us q q'
  proof (cases us)
    case Nil
    then show ?thesis .
  next
    case (Cons u us')
    with h have tl: "us' @ x # b @ q = b @ q'" by simp
    show ?thesis
    proof (cases "length us' < length b")
      case True
      from tl have "(us' @ x # b @ q) ! length us' = (b @ q') ! length us'" by simp
      with True have "x = b ! length us'" by (simp add: nth_append)
      with True have "x \<in> set b" by simp
      with xb show ?thesis by simp
    next
      case False
      from tl have "take (length b) (us' @ x # b @ q) = take (length b) (b @ q')" by simp
      with False have "take (length b) us' = b" by simp
      then have "us' = b @ drop (length b) us'" by (metis append_take_drop_id)
      then obtain r where r: "us' = b @ r" by blast
      with tl have "q' = r @ (x # b) @ q" by simp
      then have "is_substring (x # b) q'" unfolding is_substring_iff by blast
      with nq show ?thesis by simp
    qed
  qed
  from eq obtain us where
    "(c1 = c2 @ us \<and> us @ (x # b) @ q1 = (x # b) @ q2) \<or>
     (c1 @ us = c2 \<and> (x # b) @ q1 = us @ (x # b) @ q2)"
    unfolding append_eq_append_conv2 by blast
  then show ?thesis
  proof
    assume a: "c1 = c2 @ us \<and> us @ (x # b) @ q1 = (x # b) @ q2"
    with one [of us q1 q2] n2 have "us = []" by simp
    with a show ?thesis by simp
  next
    assume a: "c1 @ us = c2 \<and> (x # b) @ q1 = us @ (x # b) @ q2"
    with one [of us q2 q1] n1 have "us = []" by simp
    with a show ?thesis by simp
  qed
qed

lemma prompt_middle_quote:
  "\<exists>b. prompt_middle = CHR 0x22 # b \<and> CHR 0x22 \<notin> set b"
  by (simp add: prompt_middle_def nl8_def)

lemma prompt_middle_nonempty: "prompt_middle \<noteq> []"
  by (simp add: prompt_middle_def)

text \<open>
  Claim C5, as the code has it. For a fixed context the prompt determines the question.
  For a fixed question it determines the space-joined context and no more: two contexts
  give one prompt exactly when they join to the same text. Across both arguments, the
  prompt determines the question and the joined context whenever neither question
  holds the middle part of the template (the text that the template puts between the
  context and the question); a question may hold double quotes or any other part of the
  template. The condition cannot be dropped: a question that holds the middle part
  shares its prompt with another question.
\<close>

theorem format_prompt_injective:
  "(format_prompt q1 c = format_prompt q2 c \<longleftrightarrow> q1 = q2) \<and>
   (format_prompt q c1 = format_prompt q c2 \<longleftrightarrow> join_space c1 = join_space c2) \<and>
   (\<not> is_substring prompt_middle q1 \<and> \<not> is_substring prompt_middle q2 \<longrightarrow>
      (format_prompt q1 c1 = format_prompt q2 c2 \<longleftrightarrow>
         q1 = q2 \<and> join_space c1 = join_space c2)) \<and>
   (is_substring prompt_middle q1 \<longrightarrow>
      (\<exists>q' c'. q' \<noteq> q1 \<and> format_prompt q1 c1 = format_prompt q' c'))"
proof -
  obtain b where b: "prompt_middle = CHR 0x22 # b" "CHR 0x22 \<notin> set b"
    using prompt_middle_quote by blast
  have 1: "format_prompt q1 c = format_prompt q2 c \<longleftrightarrow> q1 = q2"
    by (simp add: format_prompt_eq)
  have 2: "format_prompt q c1 = format_prompt q c2 \<longleftrightarrow> join_space c1 = join_space c2"
    by (simp add: format_prompt_eq)
  have 3: "format_prompt q1 c1 = format_prompt q2 c2 \<longleftrightarrow>
         q1 = q2 \<and> join_space c1 = join_space c2"
    if nq: "\<not> is_substring prompt_middle q1" "\<not> is_substring prompt_middle q2"
  proof
    assume "format_prompt q1 c1 = format_prompt q2 c2"
    then have "join_space c1 @ (CHR 0x22 # b) @ q1 = join_space c2 @ (CHR 0x22 # b) @ q2"
      by (simp add: format_prompt_eq b)
    from separator_split [OF this b(2)] nq
    show "q1 = q2 \<and> join_space c1 = join_space c2"
      by (simp add: b)
  next
    assume "q1 = q2 \<and> join_space c1 = join_space c2"
    then show "format_prompt q1 c1 = format_prompt q2 c2"
      by (simp add: format_prompt_eq)
  qed
  have 4: "\<exists>q' c'. q' \<noteq> q1 \<and> format_prompt q1 c1 = format_prompt q' c'"
    if "is_substring prompt_middle q1"
  proof -
    from that obtain u v where q1: "q1 = u @ prompt_middle @ v"
      unfolding is_substring_iff by blast
    have "length v < length q1" using prompt_middle_nonempty by (simp add: q1)
    then have "v \<noteq> q1" by auto
    moreover have "format_prompt q1 c1 = format_prompt v [join_space c1 @ prompt_middle @ u]"
      by (simp add: format_prompt_eq q1)
    ultimately show ?thesis by blast
  qed
  from 1 2 3 4 show ?thesis by blast
qed

text \<open>
  A question with double quotes in it and a plain one, neither holding the middle part,
  and two contexts that join to different texts: the prompts differ. A question that
  holds the middle part: another question has the same prompt.
\<close>

theorem format_prompt_injective_witness:
  "\<not> is_substring prompt_middle (''What is '' @ [CHR 0x22] @ ''RAG'' @ [CHR 0x22] @ ''?'') \<and>
   \<not> is_substring prompt_middle ''Why?'' \<and>
   format_prompt (''What is '' @ [CHR 0x22] @ ''RAG'' @ [CHR 0x22] @ ''?'')
     [''sales rose'', ''by 12%''] \<noteq>
   format_prompt ''Why?'' [''sales fell''] \<and>
   format_prompt ''Why?'' [''sales rose'', ''by 12%''] \<noteq>
   format_prompt ''Why?'' [''sales fell''] \<and>
   is_substring prompt_middle (''x'' @ prompt_middle @ ''y'') \<and>
   (\<exists>q' c'. q' \<noteq> ''x'' @ prompt_middle @ ''y'' \<and>
      format_prompt (''x'' @ prompt_middle @ ''y'') [''a''] = format_prompt q' c')"
proof -
  have n1: "\<not> is_substring prompt_middle
      (''What is '' @ [CHR 0x22] @ ''RAG'' @ [CHR 0x22] @ ''?'')"
    using is_substring_length [of prompt_middle
        "''What is '' @ [CHR 0x22] @ ''RAG'' @ [CHR 0x22] @ ''?''"]
    by (auto simp: prompt_middle_def nl8_def)
  have n2: "\<not> is_substring prompt_middle ''Why?''"
    using is_substring_length [of prompt_middle "''Why?''"]
    by (auto simp: prompt_middle_def nl8_def)
  have y: "is_substring prompt_middle (''x'' @ prompt_middle @ ''y'')"
    unfolding is_substring_iff by blast
  from n1 n2 y
    format_prompt_injective [where ?q1.0 =
        "''What is '' @ [CHR 0x22] @ ''RAG'' @ [CHR 0x22] @ ''?''"
      and ?q2.0 = "''Why?''"
      and ?c1.0 = "[''sales rose'', ''by 12%'']" and ?c2.0 = "[''sales fell'']"
      and q = "''Why?''"]
    format_prompt_injective [where ?q1.0 = "''x'' @ prompt_middle @ ''y''"
      and ?c1.0 = "[''a'']"]
  show ?thesis by simp
qed

text \<open>
  Claim C5 as worded fails. Two pairs differ in their contexts, the contexts join to the
  same text, and the prompts are the same. Two pairs differ in question and context,
  one question holding the middle part of the template, and the prompts are the same.
\<close>

theorem format_prompt_counterexample:
  "(''q'', [''a b'']) \<noteq> (''q'', [''a'', ''b'']) \<and>
   format_prompt ''q'' [''a b''] = format_prompt ''q'' [''a'', ''b''] \<and>
   ''x'' @ prompt_middle @ ''y'' \<noteq> ''y'' \<and>
   format_prompt (''x'' @ prompt_middle @ ''y'') [''a''] =
   format_prompt ''y'' [''a'' @ prompt_middle @ ''x'']"
  by (simp add: format_prompt_eq)


section \<open>Properties of the sweep\<close>

lemma sweep_loop_Cons_ok:
  assumes "model_pass create rag questions m = Inr responses"
  shows "sweep_loop create rag questions (m # rest) s =
         sweep_loop create rag questions rest
           (s\<lparr>rag_response_dict := AList.update m responses (rag_response_dict s),
              helper_calls := helper_calls s @ [(m, questions)]\<rparr>)"
  using assms by (auto simp: model_pass_def bindE_def split: sum.splits)

lemma sweep_loop_Cons_fail:
  assumes "model_pass create rag questions m = Inl e"
  shows "\<exists>s'. (\<forall>rest. sweep_loop create rag questions (m # rest) s = (s', Some e)) \<and>
              rag_response_dict s' = rag_response_dict s"
  using assms by (auto simp: model_pass_def bindE_def split: sum.splits)

lemma keys_update:
  "map fst (AList.update k v al) = (if k \<in> fst ` set al then map fst al else map fst al @ [k])"
  by (simp add: update_keys)

lemma keys_update_set:
  "fst ` set (AList.update k v al) = insert k (fst ` set al)"
  by (induction al) auto

lemma filter_first_occurrences_Cons:
  "filter (\<lambda>m. m \<notin> K) (first_occurrences (x # xs)) =
     (if x \<in> K then filter (\<lambda>m. m \<notin> K) (first_occurrences xs)
      else x # filter (\<lambda>m. m \<noteq> x \<and> m \<notin> K) (first_occurrences xs))"
proof -
  have "filter (\<lambda>y. y \<noteq> x \<and> y \<notin> K) l = filter (\<lambda>m. m \<notin> K) l" if "x \<in> K" for l
    using that by (induction l) auto
  then show ?thesis by simp
qed

lemma sweep_loop_None_keys:
  "sweep_loop create rag questions ms s0 = (s, None) \<Longrightarrow>
   map fst (rag_response_dict s) =
     map fst (rag_response_dict s0) @
     filter (\<lambda>m. m \<notin> fst ` set (rag_response_dict s0)) (first_occurrences ms)"
proof (induction ms arbitrary: s0)
  case Nil
  then show ?case by simp
next
  case (Cons x xs)
  show ?case
  proof (cases "model_pass create rag questions x")
    case (Inl e)
    from sweep_loop_Cons_fail [OF this, of s0] Cons.prems(1) show ?thesis by auto
  next
    case (Inr responses)
    define d0 where "d0 = rag_response_dict s0"
    define s1 where "s1 = s0\<lparr>rag_response_dict := AList.update x responses d0,
              helper_calls := helper_calls s0 @ [(x, questions)]\<rparr>"
    have d1: "rag_response_dict s1 = AList.update x responses d0"
      by (simp add: s1_def)
    from Cons.prems(1) sweep_loop_Cons_ok [OF Inr, of xs s0]
    have "sweep_loop create rag questions xs s1 = (s, None)" by (simp add: s1_def d0_def)
    from Cons.IH [OF this]
    have ih: "map fst (rag_response_dict s) =
       map fst (AList.update x responses d0) @
       filter (\<lambda>m. m \<noteq> x \<and> m \<notin> fst ` set d0) (first_occurrences xs)"
      unfolding d1 keys_update_set by simp
    show ?thesis
    proof (cases "x \<in> fst ` set d0")
      case True
      have "filter (\<lambda>y. y \<noteq> x \<and> y \<notin> fst ` set d0) l = filter (\<lambda>m. m \<notin> fst ` set d0) l" for l
        using True by (induction l) auto
      with True ih show ?thesis
        unfolding d0_def [symmetric] filter_first_occurrences_Cons keys_update by simp
    next
      case False
      with ih show ?thesis
        unfolding d0_def [symmetric] filter_first_occurrences_Cons keys_update by simp
    qed
  qed
qed

lemma sweep_loop_None_calls:
  "sweep_loop create rag questions ms s0 = (s, None) \<Longrightarrow>
   helper_calls s = helper_calls s0 @ map (\<lambda>m. (m, questions)) ms"
proof (induction ms arbitrary: s0)
  case Nil
  then show ?case by simp
next
  case (Cons x xs)
  show ?case
  proof (cases "model_pass create rag questions x")
    case (Inl e)
    from sweep_loop_Cons_fail [OF this, of s0] Cons.prems(1) show ?thesis by auto
  next
    case (Inr responses)
    from Cons.prems(1) sweep_loop_Cons_ok [OF Inr, of xs s0]
    have "sweep_loop create rag questions xs
           (s0\<lparr>rag_response_dict := AList.update x responses (rag_response_dict s0),
              helper_calls := helper_calls s0 @ [(x, questions)]\<rparr>) = (s, None)" by simp
    from Cons.IH [OF this] show ?thesis by simp
  qed
qed

lemma sweep_loop_None_values:
  "sweep_loop create rag questions ms s0 = (s, None) \<Longrightarrow>
   map_of (rag_response_dict s) m =
     (if m \<in> set ms
      then (case model_pass create rag questions m of
              Inr responses \<Rightarrow> Some responses
            | Inl e \<Rightarrow> None)
      else map_of (rag_response_dict s0) m)"
proof (induction ms arbitrary: s0)
  case Nil
  then show ?case by simp
next
  case (Cons x xs)
  show ?case
  proof (cases "model_pass create rag questions x")
    case (Inl e)
    from sweep_loop_Cons_fail [OF this, of s0] Cons.prems(1) show ?thesis by auto
  next
    case (Inr responses)
    from Cons.prems(1) sweep_loop_Cons_ok [OF Inr, of xs s0]
    have "sweep_loop create rag questions xs
           (s0\<lparr>rag_response_dict := AList.update x responses (rag_response_dict s0),
              helper_calls := helper_calls s0 @ [(x, questions)]\<rparr>) = (s, None)" by simp
    from Cons.IH [OF this] Inr show ?thesis
      by (auto simp: update_conv')
  qed
qed

lemma first_occurrences_distinct: "distinct xs \<Longrightarrow> first_occurrences xs = xs"
proof (induction xs)
  case Nil
  show ?case by simp
next
  case (Cons x xs)
  then have "filter (\<lambda>y. y \<noteq> x) xs = xs" by (auto intro: filter_True)
  with Cons show ?case by simp
qed

text \<open>When every pass succeeds the loop runs to its end.\<close>

lemma sweep_loop_all_pass:
  "(\<And>m. m \<in> set ms \<Longrightarrow> \<exists>responses. model_pass create rag questions m = Inr responses) \<Longrightarrow>
   \<exists>s. sweep_loop create rag questions ms s0 = (s, None)"
proof (induction ms arbitrary: s0)
  case Nil
  show ?case by simp
next
  case (Cons x xs)
  from Cons.prems [of x] obtain responses
    where r: "model_pass create rag questions x = Inr responses" by auto
  have "\<exists>s. sweep_loop create rag questions xs
           (s0\<lparr>rag_response_dict := AList.update x responses (rag_response_dict s0),
              helper_calls := helper_calls s0 @ [(x, questions)]\<rparr>) = (s, None)"
    by (rule Cons.IH) (simp add: Cons.prems)
  with sweep_loop_Cons_ok [OF r, of xs s0] show ?case by simp
qed



text \<open>
  Claim C4, as the code has it. When every model's pass succeeds, the sweep ends
  without an exception; the
  helper has been called once for each entry of the model list, in the list's order,
  each time with the question set; the keys of the mapping are the models in the order
  of their first occurrence, which is the model list itself when no model is listed
  twice; and each model's entry is the list of responses its pass gave.
\<close>

theorem sweep_all_pass:
  "(\<forall>m \<in> set models. \<exists>responses. model_pass create rag questions m = Inr responses) \<longrightarrow>
   (\<exists>s. sweep create rag questions models = (s, None) \<and>
        helper_calls s = map (\<lambda>m. (m, questions)) models \<and>
        map fst (rag_response_dict s) = first_occurrences models \<and>
        (distinct models \<longrightarrow> map fst (rag_response_dict s) = models) \<and>
        (\<forall>m \<in> set models.
           \<exists>responses. model_pass create rag questions m = Inr responses \<and>
                       map_of (rag_response_dict s) m = Some responses))"
proof
  assume ok: "\<forall>m \<in> set models. \<exists>responses. model_pass create rag questions m = Inr responses"
  then obtain s where s: "sweep create rag questions models = (s, None)"
    using sweep_loop_all_pass [of models create rag questions] unfolding sweep_def by blast
  then have loop: "sweep_loop create rag questions models
      \<lparr>rag_response_dict = [], helper_calls = []\<rparr> = (s, None)"
    by (simp add: sweep_def)
  have calls: "helper_calls s = map (\<lambda>m. (m, questions)) models"
    using sweep_loop_None_calls [OF loop] by simp
  have keys: "map fst (rag_response_dict s) = first_occurrences models"
    using sweep_loop_None_keys [OF loop] by simp
  have vals: "\<exists>responses. model_pass create rag questions m = Inr responses \<and>
                       map_of (rag_response_dict s) m = Some responses"
    if "m \<in> set models" for m
  proof -
    from ok that obtain responses where "model_pass create rag questions m = Inr responses"
      by blast
    with sweep_loop_None_values [OF loop, of m] that show ?thesis by simp
  qed
  from s calls keys vals first_occurrences_distinct [of models]
  show "\<exists>s. sweep create rag questions models = (s, None) \<and>
        helper_calls s = map (\<lambda>m. (m, questions)) models \<and>
        map fst (rag_response_dict s) = first_occurrences models \<and>
        (distinct models \<longrightarrow> map fst (rag_response_dict s) = models) \<and>
        (\<forall>m \<in> set models.
           \<exists>responses. model_pass create rag questions m = Inr responses \<and>
                       map_of (rag_response_dict s) m = Some responses)"
    by auto
qed

text \<open>
  Two of the notebook's models, a helper that answers every question, two questions.
\<close>

theorem sweep_all_pass_witness:
  "distinct [''us.amazon.nova-lite-v1:0'', ''us.amazon.nova-pro-v1:0''] \<and>
   sweep (\<lambda>m. Inr m)
         (\<lambda>inferencer questions. Inr (map (\<lambda>q. inferencer @ '' on '' @ q) questions))
         [''Q1'', ''Q2'']
         [''us.amazon.nova-lite-v1:0'', ''us.amazon.nova-pro-v1:0''] =
     (\<lparr>rag_response_dict =
         [(''us.amazon.nova-lite-v1:0'',
             [''us.amazon.nova-lite-v1:0 on Q1'', ''us.amazon.nova-lite-v1:0 on Q2'']),
          (''us.amazon.nova-pro-v1:0'',
             [''us.amazon.nova-pro-v1:0 on Q1'', ''us.amazon.nova-pro-v1:0 on Q2''])],
       helper_calls =
         [(''us.amazon.nova-lite-v1:0'', [''Q1'', ''Q2'']),
          (''us.amazon.nova-pro-v1:0'', [''Q1'', ''Q2''])]\<rparr>,
      None)"
  using sweep_all_pass [where create = "\<lambda>m. Inr m"
      and rag = "\<lambda>inferencer questions. Inr (map (\<lambda>q. inferencer @ '' on '' @ q) questions)"
      and questions = "[''Q1'', ''Q2'']"
      and models = "[''us.amazon.nova-lite-v1:0'', ''us.amazon.nova-pro-v1:0'']"]
  by (simp add: sweep_def model_pass_def)

text \<open>
  Claim C4 as worded, for every model list and whatever the passes do, fails twice. A
  model listed twice has the helper called twice on the same model and question set,
  and one key in the mapping. And when the first model's pass raises, the helper is
  never called for the second model and the sweep ends with the exception and an empty
  mapping.
\<close>

theorem sweep_once_per_pair_counterexample:
  "sweep (\<lambda>m. Inr m)
         (\<lambda>inferencer questions. Inr (map (\<lambda>q. inferencer @ '' on '' @ q) questions))
         [''Q1'']
         [''us.amazon.nova-pro-v1:0'', ''us.amazon.nova-pro-v1:0''] =
     (\<lparr>rag_response_dict =
         [(''us.amazon.nova-pro-v1:0'', [''us.amazon.nova-pro-v1:0 on Q1''])],
       helper_calls =
         [(''us.amazon.nova-pro-v1:0'', [''Q1'']), (''us.amazon.nova-pro-v1:0'', [''Q1''])]\<rparr>,
      None) \<and>
   sweep (\<lambda>m. Inr m)
         (\<lambda>inferencer questions.
            if inferencer = ''us.amazon.nova-lite-v1:0''
            then Inl (Raised ServiceError ''AccessDeniedException'')
            else Inr (map (\<lambda>q. inferencer @ '' on '' @ q) questions))
         [''Q1'']
         [''us.amazon.nova-lite-v1:0'', ''us.amazon.nova-pro-v1:0''] =
     (\<lparr>rag_response_dict = ([] :: (string \<times> string list) list),
       helper_calls = [(''us.amazon.nova-lite-v1:0'', [''Q1''])]\<rparr>,
      Some (Raised ServiceError ''AccessDeniedException''))"
  by (simp add: sweep_def)






section \<open>Properties of the cost and latency merge\<close>

text \<open>
  With \<open>model\<close> bound, the loop writes to the record of that one key only: whatever the
  keys of \<open>loaded_responses\<close> are, every other record is left as it was.
\<close>

lemma merge_loop_other_records:
  "merge_loop calculate (Some model_key) loaded_responses final_evaluation = (fe', err) \<Longrightarrow>
   k \<noteq> model_key \<Longrightarrow> map_of fe' k = map_of final_evaluation k"
proof (induction loaded_responses arbitrary: final_evaluation)
  case Nil
  then show ?case by simp
next
  case (Cons kv rest)
  obtain kb_type inference_data where kv: "kv = (kb_type, inference_data)" by (cases kv)
  show ?case
  proof (cases "calculate inference_data")
    case (Inl e)
    with Cons.prems kv show ?thesis by simp
  next
    case (Inr metrics)
    show ?thesis
    proof (cases "map_of final_evaluation model_key")
      case None
      with Cons.prems kv Inr show ?thesis by simp
    next
      case (Some custom)
      from Cons.prems(1) kv Inr Some
      have "\<exists>record'. merge_loop calculate (Some model_key) rest
               (AList.update model_key record' final_evaluation) = (fe', err)"
        by (auto simp: Let_def split: if_splits)
      then obtain record' where "merge_loop calculate (Some model_key) rest
               (AList.update model_key record' final_evaluation) = (fe', err)" by blast
      from Cons.IH [OF this Cons.prems(2)] Cons.prems(2) show ?thesis
        by (simp add: update_conv')
    qed
  qed
qed

text \<open>
  Claim C1 does not hold of the code. The responses of two keys \<open>A\<close> and \<open>B\<close> are merged
  into an evaluation that has a record for each, the cost of a key being computed from
  its own data (10 for \<open>A\<close>, 20 for \<open>B\<close>). With \<open>model\<close> bound to \<open>A\<close>, the record of \<open>A\<close>
  ends with the cost computed from the data of \<open>B\<close>, and the record of \<open>B\<close> gets no cost
  at all. With \<open>model\<close> unbound, as the notebook leaves it, the first iteration raises
  NameError and nothing is merged.
\<close>

theorem merge_loop_leak:
  "merge_loop (\<lambda>d. Inr [(''inference_cost'', d)]) (Some ''A'')
     [(''A'', 10::int), (''B'', 20)]
     [(''A'', [(''accuracy'', 1::int)]), (''B'', [(''accuracy'', 2)])] =
     ([(''A'', [(''accuracy'', 1), (''inference_cost'', 20)]),
       (''B'', [(''accuracy'', 2)])], None) \<and>
   merge_loop (\<lambda>d. Inr [(''inference_cost'', d)]) None
     [(''A'', 10::int), (''B'', 20)]
     [(''A'', [(''accuracy'', 1::int)]), (''B'', [(''accuracy'', 2)])] =
     ([(''A'', [(''accuracy'', 1)]), (''B'', [(''accuracy'', 2)])],
      Some (Raised NameError (''name '' @ quoted ''model'' @ '' is not defined'')))"
  by (simp add: dict_union_def)


end
